theory Spec2Isabelle
  imports Main
begin

section \<open>The Trezor wallet class of purser (\<open>src/trezor/class.js\<close>)\<close>

text \<open>
  The class \<open>TrezorWallet\<close> derives a list of addresses from an exported public key and
  chain code, keeps a default address/public key/path triple, and sends four kinds of
  requests to the device through \<open>payloadListener\<close>. JavaScript numbers are modelled by
  \<open>int\<close> (the integral ones; the validators reject every other number), strings by
  \<open>string\<close>, \<open>undefined\<close> by \<open>None\<close>, a thrown error or a rejected promise by \<open>Inl\<close>.
\<close>

subsection \<open>Errors and warnings\<close>

text \<open>
  \<open>InputValidationError\<close> is what a validator throws, \<open>TypeError\<close> and \<open>RangeError\<close> are
  the runtime's own (reading a property of \<open>undefined\<close>, an invalid array length),
  \<open>InvalidAddress\<close> is what the address check of \<open>ethers/utils\<close> throws, and
  \<open>TransportError m\<close> is the error with message \<open>m\<close> that the device transport rejects with.
\<close>

datatype error =
    InputValidationError
  | TypeError
  | RangeError
  | InvalidAddress
  | TransportError string

text \<open>What \<open>warning(...)\<close> is called with: a literal text, or an entry of \<open>./messages\<close>.\<close>

datatype warning =
    Warning_text string
  | Warning_userExportCancel
  | Warning_userSignTxCancel

subsection \<open>Requests and responses of the device transport\<close>

record signTxRequest =
  address_n :: "nat list"
  gas_price :: "string option"
  gas_limit :: "string option"
  chain_id :: int
  nonce :: string
  to :: "string option"
  val :: "string option"
  data :: "string option"

text \<open>
  Each request is the fixed template of its kind (\<open>PAYLOAD_XPUB\<close>, \<open>PAYLOAD_SIGNTX\<close>,
  \<open>PAYLOAD_SIGNMSG\<close>, \<open>PAYLOAD_VERIFYMSG\<close>) merged with the caller's fields; the constructor
  stands for the template.
\<close>

datatype payload =
    PAYLOAD_XPUB "nat list"
  | PAYLOAD_SIGNTX signTxRequest
  | PAYLOAD_SIGNMSG "nat list" "string option"
  | PAYLOAD_VERIFYMSG string "string option" "string option"

datatype response =
    XpubResponse string string
  | SignedTxResponse string string string
  | SignMsgResponse string
  | VerifyMsgResponse bool

subsection \<open>Collaborators that are imported by the class\<close>

text \<open>
  The class imports its key derivation (\<open>hdkey\<close>), the address computation (\<open>ethers\<close>),
  the path helpers, the device transport and a few constants from modules that are not
  part of the sources at hand. They are parameters of the model:
  \<^item> \<open>hdKey_derive publicKey chainCode path\<close> is the public key (as a hex string) of
    \<open>hdKey.derive(path)\<close> for the key built from \<open>publicKey\<close> and \<open>chainCode\<close>, which
    are taken to be well-formed (the source leaves their check as a to-do);
  \<^item> \<open>derivationPathSerializer coinType addressIndex\<close> is called with and without an
    address index;
  \<^item> \<open>derivationPathValidator\<close> says whether the validator accepts a path (it throws
    otherwise);
  \<^item> \<open>toPathArray s\<close> is \<open>fromString(s, true).toPathArray()\<close>;
  \<^item> \<open>validateAddress\<close> is \<open>getAddress\<close> of \<open>ethers/utils\<close>, \<open>None\<close> where it throws;
  \<^item> \<open>payloadListener\<close> answers a request with a response, or rejects with an error
    whose message is the \<open>Inl\<close> value.
\<close>

record capabilities =
  hdKey_derive :: "string \<Rightarrow> string \<Rightarrow> string \<Rightarrow> string"
  publicKeyToAddress :: "string \<Rightarrow> string"
  derivationPathSerializer :: "int \<Rightarrow> nat option \<Rightarrow> string"
  derivationPathValidator :: "string \<Rightarrow> bool"
  derivationPathNormalizer :: "string \<Rightarrow> string"
  toPathArray :: "string \<Rightarrow> nat list"
  validateAddress :: "string \<Rightarrow> string option"
  payloadListener :: "payload \<Rightarrow> string + response"
  CANCEL_ACC_EXPORT :: string
  CANCEL_TX_SIGN :: string
  COIN_MAINNET :: int
  COIN_TESTNET :: int
  MAIN_NETWORK :: string

subsection \<open>Validators and string helpers\<close>

text \<open>
  Modelled from the spec: \<open>safeIntegerValidator\<close> lives in \<open>./validators\<close>, which is not
  among the sources. The spec: it "fails unless \<open>n\<close> is an integer, non-negative, and
  within the platform-safe integer range". \<open>True\<close> is a pass, \<open>False\<close> a throw of
  \<open>InputValidationError\<close>.
\<close>

definition MAX_SAFE_INTEGER :: int where
  "MAX_SAFE_INTEGER = 9007199254740991"

definition safeIntegerValidator :: "int \<Rightarrow> bool" where
  "safeIntegerValidator n = (0 \<le> n \<and> n \<le> MAX_SAFE_INTEGER)"

text \<open>
  Modelled from the spec: \<open>padLeft\<close> lives in \<open>../utils\<close>, which is not among the sources.
  The spec and the comment at its call: the value is left-padded with zeros up to the
  given length.
\<close>

definition padLeft :: "nat \<Rightarrow> string \<Rightarrow> string" where
  "padLeft len v = replicate (len - length v) (CHR ''0'') @ v"

text \<open>\<open>Number.prototype.toString\<close> on a non-negative integer, in radix 16 and 10.\<close>

definition digitChar :: "nat \<Rightarrow> char" where
  "digitChar d = ''0123456789abcdef'' ! d"

fun toString16 :: "nat \<Rightarrow> string" where
  "toString16 n =
     (if n < 16 then [digitChar n] else toString16 (n div 16) @ [digitChar (n mod 16)])"

fun toString10 :: "nat \<Rightarrow> string" where
  "toString10 n =
     (if n < 10 then [digitChar n] else toString10 (n div 10) @ [digitChar (n mod 10)])"

declare toString16.simps [simp del] toString10.simps [simp del]

text \<open>
  The value a string of hexadecimal digits denotes (what the device reads back); it is
  not part of the class, and only states what the encoding of the nonce means.
\<close>

definition hexDigitValue :: "char \<Rightarrow> nat" where
  "hexDigitValue c = (case find (\<lambda>d. digitChar d = c) [0..<16] of Some d \<Rightarrow> d | None \<Rightarrow> 0)"

definition hexValue :: "string \<Rightarrow> nat" where
  "hexValue s = foldl (\<lambda>acc c. 16 * acc + hexDigitValue c) 0 s"

subsection \<open>Data of the wallet\<close>

record addressObject =
  ao_path :: string
  ao_publicKey :: string
  ao_address :: string

record provider =
  p_chainId :: int
  p_testnet :: bool
  p_name :: string

text \<open>
  The instance: its default triple, the provider, the \<open>otherAddresses\<close> property
  (\<open>None\<close> when it is not defined), and \<open>w_derived\<close>, the array of address objects that
  the constructor builds in its local variable \<open>otherAddresses\<close> and that the closure
  \<open>setDefaultAddress\<close> keeps reading. The triple is defined with the descriptors for
  settable properties, so that \<open>setDefaultAddress\<close> can assign it; the constant tags
  \<open>type\<close> and \<open>subtype\<close> are left out.
\<close>

record wallet =
  w_address :: string
  w_publicKey :: string
  w_path :: string
  w_provider :: "provider option"
  w_otherAddresses :: "string list option"
  w_derived :: "addressObject list"

record transactionObject =
  tx_path :: "string option"
  tx_gasPrice :: "string option"
  tx_gasLimit :: "string option"
  tx_chainId :: "int option"
  tx_nonce :: "int option"
  tx_to :: "string option"
  tx_value :: "string option"
  tx_data :: "string option"

subsection \<open>\<open>signTransaction\<close>\<close>

text \<open>
  The nonce field of the request: \<open>padLeft({ length: Math.ceil(hexNonce.length / 2) * 2,
  value: hexNonce })\<close> with \<open>hexNonce = nonce.toString(16)\<close>.
\<close>

definition hexNonce :: "int \<Rightarrow> string" where
  "hexNonce n = toString16 (nat n)"

definition paddedNonce :: "int \<Rightarrow> string" where
  "paddedNonce n = padLeft (((length (hexNonce n) + 1) div 2) * 2) (hexNonce n)"

text \<open>
  The part of \<open>signTransaction\<close> before the device is asked: the validators, in the
  order of the source, and the request. A path that is \<open>undefined\<close> does not pass the
  path validator (the source's comment at the normaliser says so).
\<close>

definition signTransactionRequest :: "capabilities \<Rightarrow> transactionObject \<Rightarrow> error + signTxRequest" where
  "signTransactionRequest caps t =
     (let n = (case tx_nonce t of None \<Rightarrow> 0 | Some k \<Rightarrow> k) in
      (case tx_path t of
         None \<Rightarrow> Inl InputValidationError
       | Some path \<Rightarrow>
           (if \<not> derivationPathValidator caps path then Inl InputValidationError
            else if \<not> safeIntegerValidator n then Inl InputValidationError
            else (case tx_chainId t of
                    None \<Rightarrow> Inl InputValidationError
                  | Some chainId \<Rightarrow>
                      (if \<not> safeIntegerValidator chainId then Inl InputValidationError
                       else Inr \<lparr> address_n = toPathArray caps (derivationPathNormalizer caps path),
                                  gas_price = tx_gasPrice t,
                                  gas_limit = tx_gasLimit t,
                                  chain_id = chainId,
                                  nonce = paddedNonce n,
                                  to = tx_to t,
                                  val = tx_value t,
                                  data = tx_data t \<rparr>)))))"

text \<open>
  The whole operation: the result (\<open>Inr None\<close> is a promise resolved to \<open>undefined\<close>) and
  the warnings it emits. The \<open>catch\<close> compares the message of the caught error with the
  sentinel, warns on a match, and returns \<open>undefined\<close> in either case.
\<close>

definition signTransaction ::
  "capabilities \<Rightarrow> transactionObject \<Rightarrow> (error + response option) \<times> warning list" where
  "signTransaction caps t =
     (case signTransactionRequest caps t of
        Inl e \<Rightarrow> (Inl e, [])
      | Inr request \<Rightarrow>
          (case payloadListener caps (PAYLOAD_SIGNTX request) of
             Inr signedTransaction \<Rightarrow> (Inr (Some signedTransaction), [])
           | Inl message \<Rightarrow>
               (Inr None,
                if message = CANCEL_TX_SIGN caps then [Warning_userSignTxCancel] else [])))"

subsection \<open>\<open>signMessage\<close> and \<open>verifyMessage\<close>\<close>

text \<open>
  Neither has a \<open>try\<close>: a rejection of the transport is the rejection of the operation.
  The result is the \<open>signature\<close> (the \<open>success\<close>) property of the response, \<open>undefined\<close>
  when the response has none.
\<close>

definition signMessage :: "capabilities \<Rightarrow> string option \<Rightarrow> string option \<Rightarrow> error + string option" where
  "signMessage caps path message =
     (case path of
        None \<Rightarrow> Inl InputValidationError
      | Some p \<Rightarrow>
          (if \<not> derivationPathValidator caps p then Inl InputValidationError
           else (case payloadListener caps
                        (PAYLOAD_SIGNMSG (toPathArray caps (derivationPathNormalizer caps p)) message) of
                   Inl m \<Rightarrow> Inl (TransportError m)
                 | Inr (SignMsgResponse signedMessage) \<Rightarrow> Inr (Some signedMessage)
                 | Inr _ \<Rightarrow> Inr None)))"

definition verifyMessage ::
  "capabilities \<Rightarrow> string \<Rightarrow> string option \<Rightarrow> string option \<Rightarrow> error + bool option" where
  "verifyMessage caps address message signature =
     (case validateAddress caps address of
        None \<Rightarrow> Inl InvalidAddress
      | Some validatedAddress \<Rightarrow>
          (let strippedPrefixAddress =
                 (if take 2 validatedAddress = ''0x'' then drop 2 validatedAddress
                  else validatedAddress) in
           (case payloadListener caps (PAYLOAD_VERIFYMSG strippedPrefixAddress message signature) of
              Inl m \<Rightarrow> Inl (TransportError m)
            | Inr (VerifyMsgResponse isMessageValid) \<Rightarrow> Inr (Some isMessageValid)
            | Inr _ \<Rightarrow> Inr None)))"

subsection \<open>The constructor\<close>

text \<open>
  The callback of \<open>Array.from\<close>: the key is derived at \<open>m/${index}\<close>, the path string comes
  from the serializer (which is given the coin type), the address from the derived key.
\<close>

definition deriveAddressObject :: "capabilities \<Rightarrow> string \<Rightarrow> string \<Rightarrow> int \<Rightarrow> nat \<Rightarrow> addressObject" where
  "deriveAddressObject caps publicKey chainCode coinType index =
     (let derivationKey = hdKey_derive caps publicKey chainCode (''m/'' @ toString10 index) in
      \<lparr> ao_path = derivationPathSerializer caps coinType (Some index),
        ao_publicKey = derivationKey,
        ao_address = publicKeyToAddress caps derivationKey \<rparr>)"

text \<open>\<open>new Array(n)\<close> throws a \<open>RangeError\<close> for a length above \<open>2^32 - 1\<close>.\<close>

definition MAX_ARRAY_LENGTH :: int where
  "MAX_ARRAY_LENGTH = 4294967295"

text \<open>
  \<open>addressCount\<close> defaults to 10 when it is \<open>undefined\<close>; the array has \<open>addressCount || 1\<close>
  entries. The default triple is that of entry 0, and the property \<open>otherAddresses\<close> is
  defined when \<open>addressCount > 1\<close>, as the \<open>address\<close> of every entry of the array.
\<close>

definition TrezorWallet ::
  "capabilities \<Rightarrow> string \<Rightarrow> string \<Rightarrow> int \<Rightarrow> int option \<Rightarrow> provider option \<Rightarrow> error + wallet" where
  "TrezorWallet caps publicKey chainCode coinType addressCountArg provider =
     (let addressCount = (case addressCountArg of None \<Rightarrow> 10 | Some n \<Rightarrow> n) in
      if \<not> safeIntegerValidator addressCount then Inl InputValidationError
      else if MAX_ARRAY_LENGTH < addressCount then Inl RangeError
      else
        (let otherAddresses =
               map (deriveAddressObject caps publicKey chainCode coinType)
                 [0 ..< nat (if addressCount = 0 then 1 else addressCount)] in
         (case otherAddresses of
            [] \<Rightarrow> Inl TypeError
          | first # _ \<Rightarrow>
              Inr \<lparr> w_address = ao_address first,
                    w_publicKey = ao_publicKey first,
                    w_path = ao_path first,
                    w_provider = provider,
                    w_otherAddresses =
                      (if addressCount > 1 then Some (map ao_address otherAddresses) else None),
                    w_derived = otherAddresses \<rparr>)))"

subsection \<open>Methods of the instance\<close>

text \<open>
  \<open>setDefaultAddress\<close>: the result of the promise and the instance afterwards. The guard
  admits every index up to and including the length of the array; the body then reads
  \<open>otherAddresses[addressIndex].address\<close>, which throws a \<open>TypeError\<close> before anything is
  assigned when the entry is \<open>undefined\<close>.
\<close>

definition setDefaultAddress :: "wallet \<Rightarrow> int option \<Rightarrow> (error + bool) \<times> wallet" where
  "setDefaultAddress w addressIndexArg =
     (let addressIndex = (case addressIndexArg of None \<Rightarrow> 0 | Some i \<Rightarrow> i) in
      if \<not> safeIntegerValidator addressIndex then (Inl InputValidationError, w)
      else if addressIndex \<ge> 0 \<and> addressIndex \<le> int (length (w_derived w)) then
        (if nat addressIndex < length (w_derived w) then
           (let entry = w_derived w ! nat addressIndex in
            (Inr True,
             w\<lparr> w_address := ao_address entry,
                w_publicKey := ao_publicKey entry,
                w_path := ao_path entry \<rparr>))
         else (Inl TypeError, w))
      else (Inr False, w))"

text \<open>
  \<open>sign\<close>: the chain id is the transaction object's when it has one, and otherwise
  \<open>(this.provider && this.provider.chainId) || 1\<close>; the object handed to
  \<open>signTransaction\<close> is the transaction object with \<open>path\<close> and \<open>chainId\<close> overwritten.
\<close>

definition sign_chainId :: "wallet \<Rightarrow> transactionObject \<Rightarrow> int" where
  "sign_chainId w t =
     (case tx_chainId t of
        Some chainId \<Rightarrow> chainId
      | None \<Rightarrow>
          (case w_provider w of
             None \<Rightarrow> 1
           | Some p \<Rightarrow> (if p_chainId p = 0 then 1 else p_chainId p)))"

definition sign_argument :: "wallet \<Rightarrow> transactionObject \<Rightarrow> transactionObject" where
  "sign_argument w t = t\<lparr> tx_path := Some (w_path w), tx_chainId := Some (sign_chainId w t) \<rparr>"

definition sign ::
  "capabilities \<Rightarrow> wallet \<Rightarrow> transactionObject \<Rightarrow> (error + response option) \<times> warning list" where
  "sign caps w t = signTransaction caps (sign_argument w t)"

definition wallet_signMessage :: "capabilities \<Rightarrow> wallet \<Rightarrow> string option \<Rightarrow> error + string option" where
  "wallet_signMessage caps w message = signMessage caps (Some (w_path w)) message"

definition wallet_verifyMessage ::
  "capabilities \<Rightarrow> wallet \<Rightarrow> string option \<Rightarrow> string option \<Rightarrow> string option \<Rightarrow> error + bool option" where
  "wallet_verifyMessage caps w address message signature =
     verifyMessage caps (case address of None \<Rightarrow> w_address w | Some a \<Rightarrow> a) message signature"

subsection \<open>\<open>open\<close>\<close>

text \<open>
  The \<open>provider\<close> argument by its \<open>typeof\<close>: a function (with what awaiting its call
  gives; the default \<open>autoselect\<close> is one), an object (or \<open>null\<close>), or anything else.
\<close>

datatype providerArgument =
    ProviderFunction "error + provider option"
  | ProviderObject "provider option"
  | ProviderOther

fun providerMode_of :: "providerArgument \<Rightarrow> provider option" where
  "providerMode_of (ProviderFunction (Inr p)) = p"
| "providerMode_of (ProviderFunction (Inl e)) = None"
| "providerMode_of (ProviderObject p) = p"
| "providerMode_of ProviderOther = None"

definition open_coinType :: "capabilities \<Rightarrow> provider option \<Rightarrow> int" where
  "open_coinType caps providerMode =
     (case providerMode of
        None \<Rightarrow> COIN_MAINNET caps
      | Some p \<Rightarrow>
          (if p_testnet p \<or> p_name p \<noteq> MAIN_NETWORK caps then COIN_TESTNET caps
           else COIN_MAINNET caps))"

definition open_payload :: "capabilities \<Rightarrow> providerArgument \<Rightarrow> payload" where
  "open_payload caps provider =
     PAYLOAD_XPUB (toPathArray caps
       (derivationPathSerializer caps (open_coinType caps (providerMode_of provider)) None))"

text \<open>
  The \<open>catch\<close> of \<open>open\<close>: it warns when the message of the caught error is the
  sentinel, and returns \<open>undefined\<close> whatever the error was. The errors thrown inside
  the \<open>try\<close> by the constructor carry the validators' and the runtime's own messages,
  not the sentinel.
\<close>

definition open_catch :: "capabilities \<Rightarrow> error \<Rightarrow> (error + wallet option) \<times> warning list" where
  "open_catch caps caughtError =
     (Inr None,
      (case caughtError of
         TransportError m \<Rightarrow> (if m = CANCEL_ACC_EXPORT caps then [Warning_userExportCancel] else [])
       | _ \<Rightarrow> []))"

text \<open>
  The \<open>try\<close> block: the request, then the constructor. A response without \<open>publicKey\<close>
  and \<open>chainCode\<close> makes \<open>Buffer.from(undefined, ...)\<close> throw inside the constructor,
  after the validator of \<open>addressCount\<close>.
\<close>

definition open_try ::
  "capabilities \<Rightarrow> int option \<Rightarrow> providerArgument \<Rightarrow> (error + wallet option) \<times> warning list" where
  "open_try caps addressCount provider =
     (case payloadListener caps (open_payload caps provider) of
        Inl m \<Rightarrow> open_catch caps (TransportError m)
      | Inr (XpubResponse publicKey chainCode) \<Rightarrow>
          (case TrezorWallet caps publicKey chainCode
                  (open_coinType caps (providerMode_of provider)) addressCount
                  (providerMode_of provider) of
             Inl e \<Rightarrow> open_catch caps e
           | Inr walletInstance \<Rightarrow> (Inr (Some walletInstance), []))
      | Inr _ \<Rightarrow>
          open_catch caps
            (if \<not> safeIntegerValidator (case addressCount of None \<Rightarrow> 10 | Some n \<Rightarrow> n)
             then InputValidationError else TypeError))"

definition "open" ::
  "capabilities \<Rightarrow> int option \<Rightarrow> providerArgument \<Rightarrow> (error + wallet option) \<times> warning list" where
  "open caps addressCount provider =
     (case provider of
        ProviderFunction (Inl e) \<Rightarrow> (Inl e, [])
      | _ \<Rightarrow>
          (let warnings = (case provider of
                             ProviderOther \<Rightarrow> [Warning_text ''No provider set'']
                           | _ \<Rightarrow> []);
               (result, caughtWarnings) = open_try caps addressCount provider
           in (result, warnings @ caughtWarnings)))"

subsection \<open>A sample instance of the collaborators\<close>

text \<open>
  For evaluating the model at concrete inputs: a key derivation that records the three
  arguments it was given, an address that is the derived key behind \<open>0x\<close>, a serializer
  that writes the paths in the shape of the spec's example \<open>m/44'/60'/0'/0/3\<close>, and the
  transport as a parameter.
\<close>

definition sample_capabilities :: "(payload \<Rightarrow> string + response) \<Rightarrow> capabilities" where
  "sample_capabilities transport =
     \<lparr> hdKey_derive = (\<lambda>publicKey chainCode path. publicKey @ '':'' @ chainCode @ '':'' @ path),
       publicKeyToAddress = (\<lambda>key. ''0x'' @ key),
       derivationPathSerializer =
         (\<lambda>coinType addressIndex.
            ''m/44'' @ [CHR 0x27] @ ''/'' @ toString10 (nat coinType) @ [CHR 0x27] @ ''/0'' @ [CHR 0x27] @ ''/0'' @
            (case addressIndex of None \<Rightarrow> [] | Some i \<Rightarrow> ''/'' @ toString10 i)),
       derivationPathValidator = (\<lambda>path. take 2 path = ''m/''),
       derivationPathNormalizer = (\<lambda>path. path),
       toPathArray = (\<lambda>path. [length path]),
       validateAddress = (\<lambda>address. if take 2 address = ''0x'' then Some address else None),
       payloadListener = transport,
       CANCEL_ACC_EXPORT = ''Cancelled'',
       CANCEL_TX_SIGN = ''Action cancelled by user'',
       COIN_MAINNET = 60,
       COIN_TESTNET = 1,
       MAIN_NETWORK = ''homestead'' \<rparr>"

text \<open>
  Sample transports: one that rejects every request with a given message, and one that
  answers every request with a response of its kind.
\<close>

definition rejecting :: "string \<Rightarrow> payload \<Rightarrow> string + response" where
  "rejecting m request = Inl m"

fun answering :: "payload \<Rightarrow> string + response" where
  "answering (PAYLOAD_XPUB path) = Inr (XpubResponse ''02ab'' ''cd'')"
| "answering (PAYLOAD_SIGNTX request) = Inr (SignedTxResponse ''r'' ''s'' ''1c'')"
| "answering (PAYLOAD_SIGNMSG path message) = Inr (SignMsgResponse ''c2lnbmVk'')"
| "answering (PAYLOAD_VERIFYMSG address message signature) = Inr (VerifyMsgResponse True)"

text \<open>The transaction object \<open>{}\<close>, which is also the default argument of \<open>sign\<close>.\<close>

definition empty_transactionObject :: transactionObject where
  "empty_transactionObject =
     \<lparr> tx_path = None, tx_gasPrice = None, tx_gasLimit = None, tx_chainId = None,
       tx_nonce = None, tx_to = None, tx_value = None, tx_data = None \<rparr>"

text \<open>A provider of the main network, and the wallet that the constructor builds for two addresses.\<close>

definition sample_provider :: "int \<Rightarrow> provider" where
  "sample_provider chainId = \<lparr> p_chainId = chainId, p_testnet = False, p_name = ''homestead'' \<rparr>"

definition sample_wallet :: "provider option \<Rightarrow> wallet" where
  "sample_wallet prov =
     \<lparr> w_address = ''0x02ab:cd:m/0'', w_publicKey = ''02ab:cd:m/0'',
       w_path = ''m/44'' @ [CHR 0x27] @ ''/60'' @ [CHR 0x27] @ ''/0'' @ [CHR 0x27] @ ''/0/0'',
       w_provider = prov,
       w_otherAddresses = Some [''0x02ab:cd:m/0'', ''0x02ab:cd:m/1''],
       w_derived =
         [\<lparr> ao_path = ''m/44'' @ [CHR 0x27] @ ''/60'' @ [CHR 0x27] @ ''/0'' @ [CHR 0x27] @ ''/0/0'',
            ao_publicKey = ''02ab:cd:m/0'', ao_address = ''0x02ab:cd:m/0'' \<rparr>,
          \<lparr> ao_path = ''m/44'' @ [CHR 0x27] @ ''/60'' @ [CHR 0x27] @ ''/0'' @ [CHR 0x27] @ ''/0/1'',
            ao_publicKey = ''02ab:cd:m/1'', ao_address = ''0x02ab:cd:m/1'' \<rparr>] \<rparr>"

section \<open>Properties\<close>

subsection \<open>Hexadecimal strings\<close>

lemma hexDigitValue_digitChar: "d < 16 \<Longrightarrow> hexDigitValue (digitChar d) = d"
proof -
  assume "d < 16"
  have "list_all (\<lambda>k. hexDigitValue (digitChar k) = k) [0..<16]"
    by (simp add: hexDigitValue_def digitChar_def upt_rec)
  with \<open>d < 16\<close> show ?thesis
    by (simp add: list_all_iff)
qed

lemma hexValue_snoc: "hexValue (s @ [c]) = 16 * hexValue s + hexDigitValue c"
  by (simp add: hexValue_def)

lemma hexValue_toString16: "hexValue (toString16 n) = n"
proof (induction n rule: toString16.induct)
  case (1 n)
  show ?case
  proof (cases "n < 16")
    case True
    then show ?thesis
      by (subst toString16.simps) (simp add: hexValue_def hexDigitValue_digitChar)
  next
    case False
    with 1 show ?thesis
      by (subst toString16.simps) (simp add: hexValue_snoc hexDigitValue_digitChar)
  qed
qed

lemma toString16_nonempty: "toString16 n \<noteq> []"
  by (subst toString16.simps) simp

lemma hexValue_zero_cons: "hexValue (CHR ''0'' # s) = hexValue s"
  by (simp add: hexValue_def hexDigitValue_def digitChar_def upt_rec)

lemma paddedNonce_cases:
  "paddedNonce n = (if even (length (hexNonce n)) then hexNonce n else CHR ''0'' # hexNonce n)"
proof -
  have "hexNonce n \<noteq> []" by (simp add: hexNonce_def toString16_nonempty)
  then show ?thesis
    by (auto simp: paddedNonce_def padLeft_def elim!: evenE oddE)
qed

lemma paddedNonce_even: "even (length (paddedNonce n))"
  by (simp add: paddedNonce_cases)

lemma paddedNonce_value: "hexValue (paddedNonce n) = nat n"
  by (simp add: paddedNonce_cases hexValue_zero_cons hexNonce_def hexValue_toString16)

lemma paddedNonce_examples: "paddedNonce 3 = ''03''" "paddedNonce 300 = ''012c''"
  by (simp_all add: paddedNonce_def hexNonce_def padLeft_def toString16.simps digitChar_def)

subsection \<open>The request of \<open>signTransaction\<close>\<close>

lemma safeIntegerValidator_iff: "safeIntegerValidator n \<longleftrightarrow> 0 \<le> n \<and> n \<le> 9007199254740991"
  by (simp add: safeIntegerValidator_def MAX_SAFE_INTEGER_def)

lemma signTransactionRequest_valid:
  assumes "tx_path t = Some p" and "derivationPathValidator caps p"
    and "tx_nonce t = Some n" and "safeIntegerValidator n"
    and "tx_chainId t = Some c" and "safeIntegerValidator c"
  shows "signTransactionRequest caps t =
           Inr \<lparr> address_n = toPathArray caps (derivationPathNormalizer caps p),
                 gas_price = tx_gasPrice t, gas_limit = tx_gasLimit t, chain_id = c,
                 nonce = paddedNonce n, to = tx_to t, val = tx_value t, data = tx_data t \<rparr>"
  using assms by (simp add: signTransactionRequest_def)

lemma signTransaction_sends:
  assumes "signTransactionRequest caps t = Inr request"
  shows "signTransaction caps t =
           (case payloadListener caps (PAYLOAD_SIGNTX request) of
              Inr signedTransaction \<Rightarrow> (Inr (Some signedTransaction), [])
            | Inl message \<Rightarrow>
                (Inr None, if message = CANCEL_TX_SIGN caps then [Warning_userSignTxCancel] else []))"
  using assms by (simp add: signTransaction_def)

text \<open>
  Claim C9. For every nonce that passes the safe-integer validator (in a transaction
  object whose path and chain id pass theirs), \<open>signTransaction\<close> builds a request and
  hands it to the transport, and the nonce of that request is the hexadecimal string of
  the nonce with one zero in front when its number of digits is odd: its length is even
  and it denotes the nonce. Nonce 3 gives \<open>03\<close> and nonce 300 gives \<open>012c\<close>.
\<close>

theorem signTransaction_nonce_encoding:
  assumes "safeIntegerValidator n" and "tx_nonce t = Some n"
    and "tx_path t = Some p" and "derivationPathValidator caps p"
    and "tx_chainId t = Some c" and "safeIntegerValidator c"
  shows "\<exists>request. signTransactionRequest caps t = Inr request
           \<and> fst (signTransaction caps t) =
               (case payloadListener caps (PAYLOAD_SIGNTX request) of
                  Inr signedTransaction \<Rightarrow> Inr (Some signedTransaction)
                | Inl message \<Rightarrow> Inr None)
           \<and> nonce request =
               (if even (length (toString16 (nat n))) then toString16 (nat n)
                else CHR ''0'' # toString16 (nat n))
           \<and> even (length (nonce request))
           \<and> hexValue (nonce request) = nat n
           \<and> (n = 3 \<longrightarrow> nonce request = ''03'')
           \<and> (n = 300 \<longrightarrow> nonce request = ''012c'')"
proof -
  let ?request = "\<lparr> address_n = toPathArray caps (derivationPathNormalizer caps p),
                 gas_price = tx_gasPrice t, gas_limit = tx_gasLimit t, chain_id = c,
                 nonce = paddedNonce n, to = tx_to t, val = tx_value t, data = tx_data t \<rparr>"
  have req: "signTransactionRequest caps t = Inr ?request"
    using assms by (simp add: signTransactionRequest_valid)
  have sent: "fst (signTransaction caps t) =
               (case payloadListener caps (PAYLOAD_SIGNTX ?request) of
                  Inr signedTransaction \<Rightarrow> Inr (Some signedTransaction)
                | Inl message \<Rightarrow> Inr None)"
    by (simp add: signTransaction_sends [OF req] split: sum.splits)
  have enc: "nonce ?request =
               (if even (length (toString16 (nat n))) then toString16 (nat n)
                else CHR ''0'' # toString16 (nat n))"
    using paddedNonce_cases [of n] by (simp add: hexNonce_def)
  have ev: "even (length (nonce ?request))"
    by (simp add: paddedNonce_even)
  have hv: "hexValue (nonce ?request) = nat n"
    by (simp add: paddedNonce_value)
  have ex: "(n = 3 \<longrightarrow> nonce ?request = ''03'') \<and> (n = 300 \<longrightarrow> nonce ?request = ''012c'')"
    by (simp add: paddedNonce_examples)
  from req sent enc ev hv ex show ?thesis by blast
qed

theorem signTransaction_nonce_encoding_witness:
  "\<exists>request.
     signTransactionRequest (sample_capabilities answering)
       (empty_transactionObject\<lparr> tx_path := Some ''m/0'', tx_chainId := Some 1, tx_nonce := Some 300 \<rparr>)
       = Inr request
     \<and> nonce request = ''012c''"
proof -
  let ?t = "empty_transactionObject\<lparr> tx_path := Some ''m/0'', tx_chainId := Some 1, tx_nonce := Some 300 \<rparr>"
  have "safeIntegerValidator 300" and "safeIntegerValidator 1"
    by (simp_all add: safeIntegerValidator_iff)
  moreover have "derivationPathValidator (sample_capabilities answering) ''m/0''"
    by (simp add: sample_capabilities_def)
  ultimately show ?thesis
    using signTransaction_nonce_encoding [of 300 ?t "''m/0''" "sample_capabilities answering" 1]
    by auto
qed

subsection \<open>Evaluating the sample instance\<close>

lemma sample_constants:
  "payloadListener (sample_capabilities transport) = transport"
  "CANCEL_ACC_EXPORT (sample_capabilities transport) = ''Cancelled''"
  "CANCEL_TX_SIGN (sample_capabilities transport) = ''Action cancelled by user''"
  by (simp_all add: sample_capabilities_def)

lemma sample_wallet_constructed:
  "TrezorWallet (sample_capabilities transport) ''02ab'' ''cd'' 60 (Some 2) prov = Inr (sample_wallet prov)"
  by (simp add: TrezorWallet_def safeIntegerValidator_def MAX_SAFE_INTEGER_def MAX_ARRAY_LENGTH_def
      deriveAddressObject_def sample_capabilities_def sample_wallet_def toString10.simps
      digitChar_def upt_rec Let_def)

lemma sample_request:
  "signTransactionRequest (sample_capabilities transport)
     (empty_transactionObject\<lparr> tx_path := Some ''m/0'', tx_chainId := Some 1 \<rparr>) =
   Inr \<lparr> address_n = [3], gas_price = None, gas_limit = None, chain_id = 1, nonce = ''00'',
         to = None, val = None, data = None \<rparr>"
  by (simp add: signTransactionRequest_def sample_capabilities_def empty_transactionObject_def
      safeIntegerValidator_def MAX_SAFE_INTEGER_def paddedNonce_def hexNonce_def padLeft_def
      toString16.simps digitChar_def)

subsection \<open>The constructor\<close>

lemma TrezorWallet_Inr:
  assumes "TrezorWallet caps publicKey chainCode coinType (Some n) prov = Inr w"
  shows "safeIntegerValidator n"
    and "n \<le> MAX_ARRAY_LENGTH"
    and "w_derived w = map (deriveAddressObject caps publicKey chainCode coinType)
                         [0 ..< nat (if n = 0 then 1 else n)]"
    and "w_otherAddresses w = (if n > 1 then Some (map ao_address (w_derived w)) else None)"
    and "w_address w = ao_address (deriveAddressObject caps publicKey chainCode coinType 0)"
    and "w_publicKey w = ao_publicKey (deriveAddressObject caps publicKey chainCode coinType 0)"
    and "w_path w = ao_path (deriveAddressObject caps publicKey chainCode coinType 0)"
    and "w_provider w = prov"
  using assms
  by (auto simp: TrezorWallet_def Let_def upt_rec [of 0] split: if_splits list.splits)

lemma TrezorWallet_length:
  assumes "TrezorWallet caps publicKey chainCode coinType (Some n) prov = Inr w" and "1 \<le> n"
  shows "length (w_derived w) = nat n"
  using TrezorWallet_Inr(3) [OF assms(1)] assms(2) by simp

text \<open>The constructor returns an instance for every count that passes the validator and fits an array.\<close>

lemma TrezorWallet_constructs:
  assumes "safeIntegerValidator n" and "n \<le> MAX_ARRAY_LENGTH"
  shows "\<exists>w. TrezorWallet caps publicKey chainCode coinType (Some n) prov = Inr w"
proof -
  have "0 < nat (if n = 0 then 1 else n)"
    using assms(1) by (simp add: safeIntegerValidator_def)
  then have "[0 ..< nat (if n = 0 then 1 else n)] = 0 # [1 ..< nat (if n = 0 then 1 else n)]"
    by (simp add: upt_rec [of 0])
  then show ?thesis
    using assms by (simp add: TrezorWallet_def Let_def)
qed

text \<open>
  Claim C2, as the code has it. For a count \<open>n \<ge> 1\<close> the constructor derives \<open>n\<close> records,
  and record \<open>i\<close> holds the key derived at the path \<open>m/i\<close>, the address of that key, and
  the path string that the serializer writes for the coin type and \<open>i\<close>: the key and the
  address depend on the public key, the chain code and the index only, and the coin type
  reaches the path string alone.
\<close>

theorem TrezorWallet_derives_at_index_path:
  assumes "TrezorWallet caps publicKey chainCode coinType (Some n) prov = Inr w"
    and "1 \<le> n" and "i < nat n"
  shows "length (w_derived w) = nat n
       \<and> ao_publicKey (w_derived w ! i) = hdKey_derive caps publicKey chainCode (''m/'' @ toString10 i)
       \<and> ao_address (w_derived w ! i) =
           publicKeyToAddress caps (hdKey_derive caps publicKey chainCode (''m/'' @ toString10 i))
       \<and> ao_path (w_derived w ! i) = derivationPathSerializer caps coinType (Some i)"
proof -
  have "w_derived w ! i = deriveAddressObject caps publicKey chainCode coinType i"
    using TrezorWallet_Inr(3) [OF assms(1)] assms(2,3) by simp
  then show ?thesis
    using TrezorWallet_length [OF assms(1,2)] by (simp add: deriveAddressObject_def Let_def)
qed

theorem TrezorWallet_derives_at_index_path_witness:
  "ao_publicKey (w_derived (sample_wallet None) ! 1) = ''02ab:cd:m/1''
   \<and> ao_address (w_derived (sample_wallet None) ! 1) = ''0x02ab:cd:m/1''"
proof -
  have "ao_publicKey (w_derived (sample_wallet None) ! 1) =
          hdKey_derive (sample_capabilities answering) ''02ab'' ''cd'' (''m/'' @ toString10 1)
      \<and> ao_address (w_derived (sample_wallet None) ! 1) =
          publicKeyToAddress (sample_capabilities answering)
            (hdKey_derive (sample_capabilities answering) ''02ab'' ''cd'' (''m/'' @ toString10 1))"
    using TrezorWallet_derives_at_index_path [OF sample_wallet_constructed [of answering None], of 1]
    by simp
  then show ?thesis
    by (simp add: sample_capabilities_def toString10.simps digitChar_def)
qed

text \<open>
  Against claim C2 as stated: for coin type 60 and two addresses the derived keys are
  those at \<open>m/0\<close> and \<open>m/1\<close>, not those at \<open>m/60/0\<close> and \<open>m/60/1\<close>, and coin type 1 gives
  the same keys.
\<close>

theorem coinType_not_in_derivation:
  "(case TrezorWallet (sample_capabilities answering) ''02ab'' ''cd'' 60 (Some 2) None of
      Inr w \<Rightarrow> map ao_publicKey (w_derived w)
    | Inl e \<Rightarrow> [])
     \<noteq> [hdKey_derive (sample_capabilities answering) ''02ab'' ''cd'' ''m/60/0'',
         hdKey_derive (sample_capabilities answering) ''02ab'' ''cd'' ''m/60/1'']
   \<and> (case TrezorWallet (sample_capabilities answering) ''02ab'' ''cd'' 60 (Some 2) None of
      Inr w \<Rightarrow> map ao_publicKey (w_derived w)
    | Inl e \<Rightarrow> []) = [''02ab:cd:m/0'', ''02ab:cd:m/1'']
   \<and> (case TrezorWallet (sample_capabilities answering) ''02ab'' ''cd'' 1 (Some 2) None of
      Inr w \<Rightarrow> map ao_publicKey (w_derived w)
    | Inl e \<Rightarrow> []) = [''02ab:cd:m/0'', ''02ab:cd:m/1'']"
  by (simp add: TrezorWallet_def safeIntegerValidator_def MAX_SAFE_INTEGER_def MAX_ARRAY_LENGTH_def
      deriveAddressObject_def sample_capabilities_def toString10.simps digitChar_def upt_rec Let_def)

text \<open>
  Claim C3, as the code has it. For a count above 1 the property \<open>otherAddresses\<close> holds
  the address of every derived record, index 0 included, in derivation order: it has as
  many entries as the count and starts with the default address. For a count of 1 or 0
  the property is not defined.
\<close>

theorem TrezorWallet_otherAddresses_all:
  assumes "TrezorWallet caps publicKey chainCode coinType (Some n) prov = Inr w"
  shows "(1 < n \<longrightarrow>
            w_otherAddresses w = Some (map ao_address (w_derived w))
          \<and> w_otherAddresses w =
              Some (map (\<lambda>i. ao_address (deriveAddressObject caps publicKey chainCode coinType i))
                     [0 ..< nat n])
          \<and> length (the (w_otherAddresses w)) = nat n
          \<and> hd (the (w_otherAddresses w)) = w_address w)
       \<and> (n \<le> 1 \<longrightarrow> w_otherAddresses w = None)"
proof -
  note facts = TrezorWallet_Inr [OF assms]
  show ?thesis
  proof (cases "1 < n")
    case True
    then have pos: "0 < nat n" by simp
    have "hd (map ao_address (w_derived w)) = w_address w"
      using facts(3,5) True pos by (simp add: hd_map upt_rec [of 0])
    then show ?thesis
      using facts(3,4) True by (simp add: comp_def)
  next
    case False
    then show ?thesis using facts(4) by simp
  qed
qed

theorem TrezorWallet_otherAddresses_all_witness:
  "length (the (w_otherAddresses (sample_wallet None))) = 2
   \<and> hd (the (w_otherAddresses (sample_wallet None))) = w_address (sample_wallet None)"
proof -
  have "(1::int) < 2" by simp
  with TrezorWallet_otherAddresses_all [OF sample_wallet_constructed [of answering None]]
  have "length (the (w_otherAddresses (sample_wallet None))) = nat 2
      \<and> hd (the (w_otherAddresses (sample_wallet None))) = w_address (sample_wallet None)"
    by blast
  then show ?thesis by simp
qed

text \<open>
  Against claim C3 as stated: for a count of 2 the property holds two addresses, the
  first of them the one of index 0; it is neither the list without index 0 nor of
  length \<open>2 - 1\<close>.
\<close>

theorem otherAddresses_includes_index_0:
  "(case TrezorWallet (sample_capabilities answering) ''02ab'' ''cd'' 60 (Some 2) None of
      Inl e \<Rightarrow> False
    | Inr w \<Rightarrow>
        w_otherAddresses w = Some [''0x02ab:cd:m/0'', ''0x02ab:cd:m/1'']
        \<and> w_otherAddresses w \<noteq> Some (map ao_address (tl (w_derived w)))
        \<and> length (the (w_otherAddresses w)) \<noteq> 2 - 1)"
  by (simp add: sample_wallet_constructed) (simp add: sample_wallet_def)

subsection \<open>\<open>setDefaultAddress\<close>\<close>

lemma setDefaultAddress_cases:
  assumes "safeIntegerValidator i"
  shows "setDefaultAddress w (Some i) =
           (if nat i < length (w_derived w) then
              (Inr True, w\<lparr> w_address := ao_address (w_derived w ! nat i),
                            w_publicKey := ao_publicKey (w_derived w ! nat i),
                            w_path := ao_path (w_derived w ! nat i) \<rparr>)
            else if nat i = length (w_derived w) then (Inl TypeError, w)
            else (Inr False, w))"
  using assms by (auto simp: setDefaultAddress_def safeIntegerValidator_def Let_def)

text \<open>
  Claim C1, where the code departs from it. On an instance built for a count \<open>n \<ge> 1\<close>
  (whatever its default triple is by now) and for an index that passes the validator:
  below \<open>n\<close> the call returns true and the triple becomes that of the record of the
  index; above \<open>n\<close> it returns false and the instance is unchanged; at \<open>n\<close> itself the
  guard lets the index through, the read of the missing entry throws, and the promise
  is rejected with a \<open>TypeError\<close>, the instance unchanged.
\<close>

theorem setDefaultAddress_at_length_throws:
  assumes "TrezorWallet caps publicKey chainCode coinType (Some n) prov = Inr w0"
    and "1 \<le> n"
    and "w_derived w = w_derived w0"
    and "safeIntegerValidator i"
  shows "(i < n \<longrightarrow>
            setDefaultAddress w (Some i) =
              (Inr True,
               w\<lparr> w_address := ao_address (deriveAddressObject caps publicKey chainCode coinType (nat i)),
                  w_publicKey := ao_publicKey (deriveAddressObject caps publicKey chainCode coinType (nat i)),
                  w_path := ao_path (deriveAddressObject caps publicKey chainCode coinType (nat i)) \<rparr>))
       \<and> (i = n \<longrightarrow> setDefaultAddress w (Some i) = (Inl TypeError, w))
       \<and> (n < i \<longrightarrow> setDefaultAddress w (Some i) = (Inr False, w))"
proof -
  have len: "length (w_derived w) = nat n"
    using TrezorWallet_length [OF assms(1,2)] assms(3) by simp
  have nonneg: "0 \<le> i"
    using assms(4) by (simp add: safeIntegerValidator_def)
  have entry: "w_derived w ! nat i = deriveAddressObject caps publicKey chainCode coinType (nat i)"
    if "i < n"
    using that nonneg assms(2,3) TrezorWallet_Inr(3) [OF assms(1)] by simp
  show ?thesis
    using setDefaultAddress_cases [OF assms(4), of w] len nonneg assms(2) entry
    by auto
qed

theorem setDefaultAddress_at_length_throws_witness:
  "setDefaultAddress (sample_wallet None) (Some 2) = (Inl TypeError, sample_wallet None)
   \<and> setDefaultAddress (sample_wallet None) (Some 3) = (Inr False, sample_wallet None)
   \<and> fst (setDefaultAddress (sample_wallet None) (Some 1)) = Inr True"
proof -
  note built = sample_wallet_constructed [of answering None]
  have v: "safeIntegerValidator 1" "safeIntegerValidator 2" "safeIntegerValidator 3"
    by (simp_all add: safeIntegerValidator_iff)
  have "setDefaultAddress (sample_wallet None) (Some 2) = (Inl TypeError, sample_wallet None)"
    using setDefaultAddress_at_length_throws [OF built _ _ v(2), of "sample_wallet None"] by simp
  moreover have "setDefaultAddress (sample_wallet None) (Some 3) = (Inr False, sample_wallet None)"
    using setDefaultAddress_at_length_throws [OF built _ _ v(3), of "sample_wallet None"] by simp
  moreover have "fst (setDefaultAddress (sample_wallet None) (Some 1)) = Inr True"
    using setDefaultAddress_at_length_throws [OF built _ _ v(1), of "sample_wallet None"] by simp
  ultimately show ?thesis by simp
qed

subsection \<open>\<open>sign\<close>\<close>

text \<open>
  Claim C8, as the code has it. The chain id handed to \<open>signTransaction\<close> is the
  transaction object's when it has one; otherwise the provider's when a provider is set
  and its chain id is not 0; otherwise 1 (also for a provider whose chain id is 0).
\<close>

theorem sign_chainId_precedence:
  "sign caps w t = signTransaction caps (sign_argument w t)
   \<and> (\<forall>c. tx_chainId t = Some c \<longrightarrow> tx_chainId (sign_argument w t) = Some c)
   \<and> (\<forall>p. tx_chainId t = None \<and> w_provider w = Some p \<and> p_chainId p \<noteq> 0 \<longrightarrow>
          tx_chainId (sign_argument w t) = Some (p_chainId p))
   \<and> (\<forall>p. tx_chainId t = None \<and> w_provider w = Some p \<and> p_chainId p = 0 \<longrightarrow>
          tx_chainId (sign_argument w t) = Some 1)
   \<and> (tx_chainId t = None \<and> w_provider w = None \<longrightarrow> tx_chainId (sign_argument w t) = Some 1)"
  by (simp add: sign_def sign_argument_def sign_chainId_def)

theorem sign_chainId_precedence_witness:
  "tx_chainId (sign_argument (sample_wallet (Some (sample_provider 1)))
       (empty_transactionObject\<lparr> tx_chainId := Some 4 \<rparr>)) = Some 4
   \<and> tx_chainId (sign_argument (sample_wallet (Some (sample_provider 4))) empty_transactionObject) = Some 4
   \<and> tx_chainId (sign_argument (sample_wallet None) empty_transactionObject) = Some 1"
proof -
  let ?caps = "sample_capabilities answering"
  have a: "tx_chainId (empty_transactionObject\<lparr> tx_chainId := Some 4 \<rparr>) = Some 4"
    and b: "tx_chainId empty_transactionObject = None"
    by (simp_all add: empty_transactionObject_def)
  have c: "w_provider (sample_wallet (Some (sample_provider 4))) = Some (sample_provider 4)"
    and d: "p_chainId (sample_provider 4) \<noteq> 0" "p_chainId (sample_provider 4) = 4"
    and e: "w_provider (sample_wallet None) = None"
    by (simp_all add: sample_wallet_def sample_provider_def)
  show ?thesis
    using sign_chainId_precedence [of ?caps "sample_wallet (Some (sample_provider 1))"
        "empty_transactionObject\<lparr> tx_chainId := Some 4 \<rparr>"]
      sign_chainId_precedence [of ?caps "sample_wallet (Some (sample_provider 4))" empty_transactionObject]
      sign_chainId_precedence [of ?caps "sample_wallet None" empty_transactionObject]
      a b c d e
    by metis
qed

text \<open>
  Against claim C8 as stated: with no chain id in the transaction object and a provider
  whose chain id is 0, the chain id handed on is 1 and not the provider's.
\<close>

theorem sign_chainId_provider_zero:
  "tx_chainId (sign_argument (sample_wallet (Some (sample_provider 0))) empty_transactionObject) = Some 1
   \<and> tx_chainId (sign_argument (sample_wallet (Some (sample_provider 0))) empty_transactionObject)
       \<noteq> Some (p_chainId (sample_provider 0))"
  by (simp add: sign_argument_def sign_chainId_def sample_wallet_def sample_provider_def
      empty_transactionObject_def)

text \<open>
  Claim C10. Whatever the transaction object holds, its own path included, the object
  that \<open>sign\<close> hands to \<open>signTransaction\<close> carries the instance's current default path:
  a path supplied by the caller changes neither that object nor the outcome, the request
  built from it addresses the default path, and after a successful \<open>setDefaultAddress\<close>
  the path is that of the newly chosen record.
\<close>

theorem sign_uses_default_path:
  "tx_path (sign_argument w t) = Some (w_path w)
   \<and> sign caps w t = signTransaction caps (sign_argument w t)
   \<and> sign_argument w (t\<lparr> tx_path := callerPath \<rparr>) = sign_argument w t
   \<and> sign caps w (t\<lparr> tx_path := callerPath \<rparr>) = sign caps w t
   \<and> (\<forall>request. signTransactionRequest caps (sign_argument w t) = Inr request \<longrightarrow>
         address_n request = toPathArray caps (derivationPathNormalizer caps (w_path w)))
   \<and> (\<forall>i w'. setDefaultAddress w (Some i) = (Inr True, w') \<longrightarrow>
         tx_path (sign_argument w' t) = Some (ao_path (w_derived w ! nat i)))"
proof -
  have a: "tx_path (sign_argument w t) = Some (w_path w)" for w
    by (simp add: sign_argument_def)
  have b: "sign_argument w (t\<lparr> tx_path := callerPath \<rparr>) = sign_argument w t"
    by (simp add: sign_argument_def sign_chainId_def)
  have c: "address_n request = toPathArray caps (derivationPathNormalizer caps (w_path w))"
    if "signTransactionRequest caps (sign_argument w t) = Inr request" for request
    using that a [of w]
    by (auto simp: signTransactionRequest_def Let_def split: option.splits if_splits)
  have d: "tx_path (sign_argument w' t) = Some (ao_path (w_derived w ! nat i))"
    if "setDefaultAddress w (Some i) = (Inr True, w')" for i w'
    using that a [of w']
    by (auto simp: setDefaultAddress_def Let_def split: if_splits)
  show ?thesis
    using a b c d by (simp add: sign_def)
qed

theorem sign_uses_default_path_witness:
  "(\<exists>request. signTransactionRequest (sample_capabilities answering)
        (sign_argument (sample_wallet None) (empty_transactionObject\<lparr> tx_path := Some ''m/7'' \<rparr>))
        = Inr request
      \<and> address_n request = [16])
   \<and> (\<exists>w'. setDefaultAddress (sample_wallet None) (Some 1) = (Inr True, w')
      \<and> tx_path (sign_argument w' (empty_transactionObject\<lparr> tx_path := Some ''m/7'' \<rparr>))
          = Some (''m/44'' @ [CHR 0x27] @ ''/60'' @ [CHR 0x27] @ ''/0'' @ [CHR 0x27] @ ''/0/1''))"
proof -
  let ?caps = "sample_capabilities answering"
  let ?t = "empty_transactionObject\<lparr> tx_path := Some ''m/7'' \<rparr>"
  obtain request where r: "signTransactionRequest ?caps (sign_argument (sample_wallet None) ?t) = Inr request"
    by (simp add: signTransactionRequest_def sign_argument_def sign_chainId_def sample_wallet_def
        sample_capabilities_def empty_transactionObject_def safeIntegerValidator_iff)
  obtain w' where s: "setDefaultAddress (sample_wallet None) (Some 1) = (Inr True, w')"
    by (simp add: setDefaultAddress_def sample_wallet_def safeIntegerValidator_iff)
  have "address_n request = toPathArray ?caps (derivationPathNormalizer ?caps (w_path (sample_wallet None)))"
    using sign_uses_default_path [of "sample_wallet None" ?t ?caps] r by blast
  then have 1: "address_n request = [16]"
    by (simp add: sample_capabilities_def sample_wallet_def)
  have "tx_path (sign_argument w' ?t) = Some (ao_path (w_derived (sample_wallet None) ! nat 1))"
    using sign_uses_default_path [of "sample_wallet None" ?t ?caps] s by blast
  then have 2: "tx_path (sign_argument w' ?t)
      = Some (''m/44'' @ [CHR 0x27] @ ''/60'' @ [CHR 0x27] @ ''/0'' @ [CHR 0x27] @ ''/0/1'')"
    by (simp add: sample_wallet_def)
  from r 1 s 2 show ?thesis by blast
qed

subsection \<open>Rejections of the transport and errors of the validators\<close>

lemma open_resolved_provider:
  assumes "\<forall>e. provider \<noteq> ProviderFunction (Inl e)"
  shows "open caps addressCount provider =
           (fst (open_try caps addressCount provider),
            (case provider of ProviderOther \<Rightarrow> [Warning_text ''No provider set''] | _ \<Rightarrow> [])
              @ snd (open_try caps addressCount provider))"
  using assms
  by (cases provider) (auto simp: open_def Let_def split: sum.splits prod.splits)

lemma open_try_rejected:
  assumes "payloadListener caps (open_payload caps provider) = Inl m"
  shows "open_try caps addressCount provider =
           (Inr None, if m = CANCEL_ACC_EXPORT caps then [Warning_userExportCancel] else [])"
  using assms by (simp add: open_try_def open_catch_def)

lemma open_try_invalid_count:
  assumes "\<not> safeIntegerValidator n"
  shows "fst (open_try caps (Some n) provider) = Inr None"
proof (cases "payloadListener caps (open_payload caps provider)")
  case (Inl m)
  then show ?thesis by (simp add: open_try_rejected)
next
  case (Inr r)
  have "TrezorWallet caps publicKey chainCode coinType (Some n) prov = Inl InputValidationError"
    for publicKey chainCode coinType prov
    using assms by (simp add: TrezorWallet_def)
  with Inr assms show ?thesis
    by (cases r) (simp_all add: open_try_def open_catch_def)
qed

text \<open>
  Claim C4, where the code departs from it. When the transport rejects the export
  request of \<open>open\<close>, or the request of \<open>signTransaction\<close>, with a message that is not the
  sentinel, the operation does not reject: it resolves to \<open>undefined\<close>, and no warning
  tells of the error.
\<close>

theorem transport_rejection_swallowed:
  "(payloadListener caps (open_payload caps provider) = Inl m
      \<and> m \<noteq> CANCEL_ACC_EXPORT caps
      \<and> (\<forall>e. provider \<noteq> ProviderFunction (Inl e))
    \<longrightarrow> open caps addressCount provider =
          (Inr None, case provider of ProviderOther \<Rightarrow> [Warning_text ''No provider set''] | _ \<Rightarrow> []))
   \<and> (signTransactionRequest caps t = Inr request
      \<and> payloadListener caps (PAYLOAD_SIGNTX request) = Inl m'
      \<and> m' \<noteq> CANCEL_TX_SIGN caps
    \<longrightarrow> signTransaction caps t = (Inr None, []))"
proof (intro conjI impI)
  assume a: "payloadListener caps (open_payload caps provider) = Inl m
      \<and> m \<noteq> CANCEL_ACC_EXPORT caps \<and> (\<forall>e. provider \<noteq> ProviderFunction (Inl e))"
  then have "open_try caps addressCount provider = (Inr None, [])"
    by (simp add: open_try_rejected)
  with a show "open caps addressCount provider =
          (Inr None, case provider of ProviderOther \<Rightarrow> [Warning_text ''No provider set''] | _ \<Rightarrow> [])"
    by (simp add: open_resolved_provider)
next
  assume "signTransactionRequest caps t = Inr request
      \<and> payloadListener caps (PAYLOAD_SIGNTX request) = Inl m' \<and> m' \<noteq> CANCEL_TX_SIGN caps"
  then show "signTransaction caps t = (Inr None, [])"
    by (simp add: signTransaction_sends)
qed

theorem transport_rejection_swallowed_witness:
  "open (sample_capabilities (rejecting ''Device disconnected'')) (Some 2)
       (ProviderObject (Some (sample_provider 1))) = (Inr None, [])
   \<and> signTransaction (sample_capabilities (rejecting ''Device disconnected''))
       (empty_transactionObject\<lparr> tx_path := Some ''m/0'', tx_chainId := Some 1 \<rparr>) = (Inr None, [])"
proof -
  let ?caps = "sample_capabilities (rejecting ''Device disconnected'')"
  let ?provider = "ProviderObject (Some (sample_provider 1))"
  have 1: "payloadListener ?caps (open_payload ?caps ?provider) = Inl ''Device disconnected''"
    and 2: "''Device disconnected'' \<noteq> CANCEL_ACC_EXPORT ?caps"
    and 3: "\<forall>e. ?provider \<noteq> ProviderFunction (Inl e)"
    and 4: "''Device disconnected'' \<noteq> CANCEL_TX_SIGN ?caps"
    and 5: "payloadListener ?caps (PAYLOAD_SIGNTX r) = Inl ''Device disconnected''" for r
    by (simp_all add: sample_constants rejecting_def)
  show ?thesis
    using transport_rejection_swallowed [of ?caps ?provider "''Device disconnected''" "Some 2"
        "empty_transactionObject\<lparr> tx_path := Some ''m/0'', tx_chainId := Some 1 \<rparr>" _
        "''Device disconnected''"]
      1 2 3 4 5 sample_request [of "rejecting ''Device disconnected''"]
    by simp
qed

text \<open>
  Claim C5, where the code departs from it. An address count that fails the validator
  makes the constructor throw, but the constructor runs inside the \<open>try\<close> of \<open>open\<close>:
  whatever the transport answers, \<open>open\<close> resolves to \<open>undefined\<close> and does not reject.
\<close>

theorem open_swallows_validation_error:
  assumes "\<not> safeIntegerValidator n" and "\<forall>e. provider \<noteq> ProviderFunction (Inl e)"
  shows "TrezorWallet caps publicKey chainCode coinType (Some n) prov = Inl InputValidationError
       \<and> fst (open caps (Some n) provider) = Inr None"
  using assms by (simp add: open_resolved_provider open_try_invalid_count TrezorWallet_def)

theorem open_swallows_validation_error_witness:
  "TrezorWallet (sample_capabilities answering) ''02ab'' ''cd'' 60 (Some (- 1)) None = Inl InputValidationError
   \<and> fst (open (sample_capabilities answering) (Some (- 1)) (ProviderObject (Some (sample_provider 1)))) = Inr None"
proof -
  have "\<not> safeIntegerValidator (- 1)"
    by (simp add: safeIntegerValidator_def)
  moreover have "\<forall>e. ProviderObject (Some (sample_provider 1)) \<noteq> ProviderFunction (Inl e)"
    by simp
  ultimately show ?thesis
    using open_swallows_validation_error by blast
qed

text \<open>
  Claim C6. When the transport rejects the export request with the export sentinel,
  \<open>open\<close> resolves to \<open>undefined\<close> and warns of the cancelled export; when it rejects the
  request of \<open>signTransaction\<close> with the signing sentinel, \<open>signTransaction\<close> returns
  \<open>undefined\<close> and warns of the cancelled signing.
\<close>

theorem cancellation_resolves_undefined_with_warning:
  "(payloadListener caps (open_payload caps provider) = Inl (CANCEL_ACC_EXPORT caps)
      \<and> (\<forall>e. provider \<noteq> ProviderFunction (Inl e))
    \<longrightarrow> open caps addressCount provider =
          (Inr None,
           (case provider of ProviderOther \<Rightarrow> [Warning_text ''No provider set''] | _ \<Rightarrow> [])
             @ [Warning_userExportCancel]))
   \<and> (signTransactionRequest caps t = Inr request
      \<and> payloadListener caps (PAYLOAD_SIGNTX request) = Inl (CANCEL_TX_SIGN caps)
    \<longrightarrow> signTransaction caps t = (Inr None, [Warning_userSignTxCancel]))"
proof (intro conjI impI)
  assume a: "payloadListener caps (open_payload caps provider) = Inl (CANCEL_ACC_EXPORT caps)
      \<and> (\<forall>e. provider \<noteq> ProviderFunction (Inl e))"
  then have "open_try caps addressCount provider = (Inr None, [Warning_userExportCancel])"
    by (simp add: open_try_rejected)
  with a show "open caps addressCount provider =
          (Inr None,
           (case provider of ProviderOther \<Rightarrow> [Warning_text ''No provider set''] | _ \<Rightarrow> [])
             @ [Warning_userExportCancel])"
    by (simp add: open_resolved_provider)
next
  assume "signTransactionRequest caps t = Inr request
      \<and> payloadListener caps (PAYLOAD_SIGNTX request) = Inl (CANCEL_TX_SIGN caps)"
  then show "signTransaction caps t = (Inr None, [Warning_userSignTxCancel])"
    by (simp add: signTransaction_sends)
qed

theorem cancellation_resolves_undefined_with_warning_witness:
  "open (sample_capabilities (rejecting ''Cancelled'')) (Some 2)
       (ProviderObject (Some (sample_provider 1))) = (Inr None, [Warning_userExportCancel])
   \<and> signTransaction (sample_capabilities (rejecting ''Action cancelled by user''))
       (empty_transactionObject\<lparr> tx_path := Some ''m/0'', tx_chainId := Some 1 \<rparr>)
       = (Inr None, [Warning_userSignTxCancel])"
proof -
  let ?export = "sample_capabilities (rejecting ''Cancelled'')"
  let ?signtx = "sample_capabilities (rejecting ''Action cancelled by user'')"
  let ?provider = "ProviderObject (Some (sample_provider 1))"
  let ?t = "empty_transactionObject\<lparr> tx_path := Some ''m/0'', tx_chainId := Some 1 \<rparr>"
  have 1: "payloadListener ?export (open_payload ?export ?provider) = Inl (CANCEL_ACC_EXPORT ?export)"
    and 2: "\<forall>e. ?provider \<noteq> ProviderFunction (Inl e)"
    and 3: "payloadListener ?signtx (PAYLOAD_SIGNTX r) = Inl (CANCEL_TX_SIGN ?signtx)" for r
    by (simp_all add: sample_constants rejecting_def)
  have "open ?export (Some 2) ?provider = (Inr None, [Warning_userExportCancel])"
    using cancellation_resolves_undefined_with_warning [of ?export ?provider] 1 2 by simp
  moreover have "signTransaction ?signtx ?t = (Inr None, [Warning_userSignTxCancel])"
    using cancellation_resolves_undefined_with_warning [of ?signtx _ _ ?t] 3
      sample_request [of "rejecting ''Action cancelled by user''"]
    by simp
  ultimately show ?thesis by simp
qed

text \<open>
  Claim C7. \<open>signMessage\<close> and \<open>verifyMessage\<close> have no sentinel: when the transport
  rejects their request with any message, a sentinel included, the operation rejects
  with that very error; and with a transport that rejects, neither they nor the
  instance's methods that call them ever resolve, to \<open>undefined\<close> or to anything else.
\<close>

theorem message_operations_propagate_rejections:
  "(path = Some p \<and> derivationPathValidator caps p
      \<and> payloadListener caps
            (PAYLOAD_SIGNMSG (toPathArray caps (derivationPathNormalizer caps p)) message) = Inl m
    \<longrightarrow> signMessage caps path message = Inl (TransportError m))
   \<and> (validateAddress caps address = Some validatedAddress
      \<and> payloadListener caps
            (PAYLOAD_VERIFYMSG
               (if take 2 validatedAddress = ''0x'' then drop 2 validatedAddress else validatedAddress)
               message signature) = Inl m'
    \<longrightarrow> verifyMessage caps address message signature = Inl (TransportError m'))
   \<and> ((\<forall>request. \<exists>e. payloadListener caps request = Inl e)
    \<longrightarrow> (\<forall>x. signMessage caps path message \<noteq> Inr x)
      \<and> (\<forall>x. verifyMessage caps address message signature \<noteq> Inr x)
      \<and> (\<forall>x. wallet_signMessage caps w message \<noteq> Inr x)
      \<and> (\<forall>x. wallet_verifyMessage caps w optionalAddress message signature \<noteq> Inr x))"
proof (intro conjI impI allI)
  assume "path = Some p \<and> derivationPathValidator caps p
      \<and> payloadListener caps
            (PAYLOAD_SIGNMSG (toPathArray caps (derivationPathNormalizer caps p)) message) = Inl m"
  then show "signMessage caps path message = Inl (TransportError m)"
    by (simp add: signMessage_def)
next
  assume "validateAddress caps address = Some validatedAddress
      \<and> payloadListener caps
            (PAYLOAD_VERIFYMSG
               (if take 2 validatedAddress = ''0x'' then drop 2 validatedAddress else validatedAddress)
               message signature) = Inl m'"
  then show "verifyMessage caps address message signature = Inl (TransportError m')"
    by (simp add: verifyMessage_def Let_def)
next
  fix x
  assume r: "\<forall>request. \<exists>e. payloadListener caps request = Inl e"
  have s: "signMessage caps q message \<noteq> Inr y" for q y
  proof (cases q)
    case None
    then show ?thesis by (simp add: signMessage_def)
  next
    case (Some p')
    obtain e where "payloadListener caps
        (PAYLOAD_SIGNMSG (toPathArray caps (derivationPathNormalizer caps p')) message) = Inl e"
      using r by blast
    with Some show ?thesis by (simp add: signMessage_def)
  qed
  have v: "verifyMessage caps a message signature \<noteq> Inr y" for a y
  proof (cases "validateAddress caps a")
    case None
    then show ?thesis by (simp add: verifyMessage_def)
  next
    case (Some va)
    obtain e where "payloadListener caps
        (PAYLOAD_VERIFYMSG (if take 2 va = ''0x'' then drop 2 va else va) message signature) = Inl e"
      using r by blast
    with Some show ?thesis by (simp add: verifyMessage_def Let_def)
  qed
  show "signMessage caps path message \<noteq> Inr x" by (rule s)
  show "\<And>x. verifyMessage caps address message signature \<noteq> Inr x" by (rule v)
  show "\<And>x. wallet_signMessage caps w message \<noteq> Inr x" by (simp add: wallet_signMessage_def s)
  show "\<And>x. wallet_verifyMessage caps w optionalAddress message signature \<noteq> Inr x"
    by (simp add: wallet_verifyMessage_def v)
qed

theorem message_operations_propagate_rejections_witness:
  "signMessage (sample_capabilities (rejecting ''Action cancelled by user'')) (Some ''m/0'') (Some ''Sign me'')
     = Inl (TransportError ''Action cancelled by user'')
   \<and> verifyMessage (sample_capabilities (rejecting ''Cancelled'')) ''0x02ab'' (Some ''Sign me'') (Some ''c2lnbmVk'')
     = Inl (TransportError ''Cancelled'')"
proof -
  let ?a = "sample_capabilities (rejecting ''Action cancelled by user'')"
  let ?b = "sample_capabilities (rejecting ''Cancelled'')"
  have 1: "derivationPathValidator ?a ''m/0''"
    and 2: "payloadListener ?a request = Inl ''Action cancelled by user''"
    and 3: "validateAddress ?b ''0x02ab'' = Some ''0x02ab''"
    and 4: "payloadListener ?b request = Inl ''Cancelled''" for request
    by (simp_all add: sample_capabilities_def rejecting_def)
  have "signMessage ?a (Some ''m/0'') (Some ''Sign me'') = Inl (TransportError ''Action cancelled by user'')"
    using message_operations_propagate_rejections [of "Some ''m/0''" "''m/0''" ?a "Some ''Sign me''"
        "''Action cancelled by user''"] 1 2
    by simp
  moreover have "verifyMessage ?b ''0x02ab'' (Some ''Sign me'') (Some ''c2lnbmVk'') = Inl (TransportError ''Cancelled'')"
    using message_operations_propagate_rejections [where caps = ?b and address = "''0x02ab''"
        and validatedAddress = "''0x02ab''" and message = "Some ''Sign me''"
        and signature = "Some ''c2lnbmVk''" and m' = "''Cancelled''"] 3 4
    by simp
  ultimately show ?thesis by simp
qed

end
